theory Spec2Isabelle
  imports Main
begin

section \<open>Strings\<close>

text \<open>
  A JavaScript string is modelled as a \<^typ>\<open>string\<close>, one \<^typ>\<open>char\<close> per code unit.
  Every character that \<^verbatim>\<open>src/index.tsx\<close> searches for or replaces is an ASCII character.
\<close>

text \<open>\<^verbatim>\<open>String.prototype.indexOf\<close> for a one-character search string: the first index, or -1.\<close>

fun indexOf :: "string \<Rightarrow> char \<Rightarrow> int" where
  "indexOf [] c = - 1"
| "indexOf (x # xs) c =
     (if x = c then 0
      else (let r = indexOf xs c in if r = - 1 then - 1 else r + 1))"

text \<open>\<^verbatim>\<open>String.prototype.lastIndexOf\<close> for a one-character search string: the last index, or -1.\<close>

definition lastIndexOf :: "string \<Rightarrow> char \<Rightarrow> int" where
  "lastIndexOf s c =
     (let r = indexOf (rev s) c
      in if r = - 1 then - 1 else int (length s) - 1 - r)"

text \<open>
  \<^verbatim>\<open>String.prototype.substring(start, end)\<close>: both arguments are clamped to the range
  from 0 to the length, and swapped when the start is the larger one.
\<close>

definition substring :: "string \<Rightarrow> int \<Rightarrow> int \<Rightarrow> string" where
  "substring s start end =
     (let len = int (length s);
          finalStart = min (max start 0) len;
          finalEnd = min (max end 0) len;
          from = min finalStart finalEnd;
          to = max finalStart finalEnd
      in take (nat (to - from)) (drop (nat from) s))"

text \<open>
  \<^verbatim>\<open>s.replace(/c/g, r)\<close> for a regular expression that matches the single character
  \<open>c\<close>: every occurrence of \<open>c\<close> is replaced by \<open>r\<close>, from left to right.
\<close>

fun replace_g :: "char \<Rightarrow> string \<Rightarrow> string \<Rightarrow> string" where
  "replace_g c r [] = []"
| "replace_g c r (x # xs) =
     (if x = c then r @ replace_g c r xs else x # replace_g c r xs)"

text \<open>\<^verbatim>\<open>hostname.replace(/^www\./, '')\<close>: one leading \<^verbatim>\<open>www.\<close> is removed.\<close>

definition strip_www :: "string \<Rightarrow> string" where
  "strip_www hostname =
     (if take 4 hostname = ''www.'' then drop 4 hostname else hostname)"

subsection \<open>escapeHtml\<close>

text \<open>
  \<^verbatim>\<open>
  function escapeHtml(unsafe: string): string {
    return unsafe
         .replace(/&/g, "&amp;")
         .replace(/</g, "&lt;")
         .replace(/>/g, "&gt;")
         .replace(/"/g, "&quot;")
         .replace(/'/g, "&#039;");
  }
  \<close>
  The double quote is \<open>CHR 0x22\<close> and the single quote is \<open>CHR 0x27\<close>.
\<close>

definition escapeHtml :: "string \<Rightarrow> string" where
  "escapeHtml unsafe =
     replace_g (CHR 0x27) ''&#039;''
       (replace_g (CHR 0x22) ''&quot;''
         (replace_g CHR ''>'' ''&gt;''
           (replace_g CHR ''<'' ''&lt;''
             (replace_g CHR ''&'' ''&amp;'' unsafe))))"

text \<open>
  The five characters of the specification.
\<close>

definition html_special :: "char set" where
  "html_special = {CHR ''&'', CHR ''<'', CHR ''>'', CHR 0x22, CHR 0x27}"

text \<open>
  The specification's words: every one of the five characters is replaced by its named
  entity equivalent. The named entities of HTML for \<^verbatim>\<open>& < > " '\<close> are \<^verbatim>\<open>&amp; &lt; &gt; &quot;\<close>
  and \<^verbatim>\<open>&apos;\<close>; every other character stands for itself.
\<close>

definition named_entity :: "char \<Rightarrow> string" where
  "named_entity c =
     (if c = CHR ''&'' then ''&amp;''
      else if c = CHR ''<'' then ''&lt;''
      else if c = CHR ''>'' then ''&gt;''
      else if c = CHR 0x22 then ''&quot;''
      else if c = CHR 0x27 then ''&apos;''
      else [c])"

text \<open>
  The amended reading, which differs from the specification's words at the single quote
  alone: it is replaced by the numeric character reference \<^verbatim>\<open>&#039;\<close>, the other four
  characters by their named entities. \<open>entities\<close> lists the five replacement texts.
\<close>

definition entity_of :: "char \<Rightarrow> string" where
  "entity_of c = (if c = CHR 0x27 then ''&#039;'' else named_entity c)"

definition entities :: "string list" where
  "entities = [''&amp;'', ''&lt;'', ''&gt;'', ''&quot;'', ''&#039;'']"

section \<open>Values returned by JSON.parse\<close>

text \<open>
  \<^verbatim>\<open>JSON.parse\<close> returns a value of TypeScript type \<^verbatim>\<open>any\<close>: null, a boolean, a number, a
  string, an array or an object. The type \<open>'n\<close> stands for the numbers; the code only
  tests them for truth and converts them to strings. An object is the list of its own
  properties, looked up by \<open>map_of\<close>.
\<close>

datatype 'n json =
    JNull
  | JBool bool
  | JNum 'n
  | JStr string
  | JArr "'n json list"
  | JObj "(string \<times> 'n json) list"

text \<open>
  What the code throws: \<^verbatim>\<open>new Error(message)\<close>, the \<^verbatim>\<open>SyntaxError\<close> of \<^verbatim>\<open>JSON.parse\<close>, a
  \<^verbatim>\<open>TypeError\<close> (a property of null, \<^verbatim>\<open>new URL\<close> of an invalid URL, a call of something that
  is not a function), and the reason of a rejected service call.
\<close>

datatype error = Error string | SyntaxError | TypeError | Rejection

text \<open>
  The platform functions that \<^verbatim>\<open>src/index.tsx\<close> calls and does not define are parameters
  of the model: \<^verbatim>\<open>JSON.parse\<close> (\<open>None\<close> when it throws a \<^verbatim>\<open>SyntaxError\<close>), the host name of
  \<^verbatim>\<open>new URL(s)\<close> (\<open>None\<close> when the constructor throws a \<^verbatim>\<open>TypeError\<close>), and the truth value
  and the string of a number.
\<close>

record 'n env =
  JSON_parse :: "string \<Rightarrow> 'n json option"
  URL_hostname :: "string \<Rightarrow> string option"
  Number_ToBoolean :: "'n \<Rightarrow> bool"
  Number_ToString :: "'n \<Rightarrow> string"

text \<open>Truthiness of a value that may be \<^verbatim>\<open>undefined\<close> (\<open>None\<close>).\<close>

fun ToBoolean :: "'n env \<Rightarrow> 'n json option \<Rightarrow> bool" where
  "ToBoolean env None = False"
| "ToBoolean env (Some JNull) = False"
| "ToBoolean env (Some (JBool b)) = b"
| "ToBoolean env (Some (JNum n)) = Number_ToBoolean env n"
| "ToBoolean env (Some (JStr s)) = (s \<noteq> [])"
| "ToBoolean env (Some (JArr xs)) = True"
| "ToBoolean env (Some (JObj kvs)) = True"

text \<open>
  The string of a value, as a template literal and \<^verbatim>\<open>new URL\<close> take it: an array joins the
  strings of its elements with commas, a null element giving the empty string.
\<close>

fun ToString :: "'n env \<Rightarrow> 'n json \<Rightarrow> string"
  and join :: "'n env \<Rightarrow> 'n json list \<Rightarrow> string" where
  "ToString env JNull = ''null''"
| "ToString env (JBool b) = (if b then ''true'' else ''false'')"
| "ToString env (JNum n) = Number_ToString env n"
| "ToString env (JStr s) = s"
| "ToString env (JArr xs) = join env xs"
| "ToString env (JObj kvs) = ''[object Object]''"
| "join env [] = []"
| "join env [x] = (if x = JNull then [] else ToString env x)"
| "join env (x # y # ys) =
     (if x = JNull then [] else ToString env x) @ '','' @ join env (y # ys)"

text \<open>
  \<^verbatim>\<open>article.title\<close> and \<^verbatim>\<open>article.url\<close>: a \<^verbatim>\<open>TypeError\<close> on null, the own property of an
  object, and \<^verbatim>\<open>undefined\<close> on every other value (neither name is a property of a
  boolean, a number, a string or an array).
\<close>

fun property :: "'n json \<Rightarrow> string \<Rightarrow> 'n json option" where
  "property (JObj kvs) k = map_of kvs k"
| "property v k = None"

fun get_property :: "'n json \<Rightarrow> string \<Rightarrow> error + 'n json option" where
  "get_property JNull k = Inl TypeError"
| "get_property v k = Inr (property v k)"

section \<open>The page\<close>

text \<open>
  The part of the document that \<^verbatim>\<open>fetchAndDisplayNews\<close> writes: the class list of the
  loader, the results container (the markup last assigned to its \<^verbatim>\<open>innerHTML\<close> and the
  elements appended since), and the console's error log. Assigning \<^verbatim>\<open>innerHTML\<close> replaces
  all children of the container.
\<close>

record element =
  className :: string
  innerHTML :: string

record dom =
  loader_classList :: "string list"
  newsResults_innerHTML :: string
  newsResults_children :: "element list"
  console :: "(string \<times> error) list"

definition classList_add :: "string \<Rightarrow> string list \<Rightarrow> string list" where
  "classList_add t ts = (if t \<in> set ts then ts else ts @ [t])"

definition classList_remove :: "string \<Rightarrow> string list \<Rightarrow> string list" where
  "classList_remove t ts = filter (\<lambda>x. x \<noteq> t) ts"

text \<open>
  \<^verbatim>\<open>
  function showLoading(isLoading: boolean) {
    if (isLoading) { loader.classList.remove('hidden'); }
    else { loader.classList.add('hidden'); }
  }
  \<close>
\<close>

definition showLoading :: "bool \<Rightarrow> dom \<Rightarrow> dom" where
  "showLoading isLoading d =
     (if isLoading
      then d\<lparr>loader_classList := classList_remove ''hidden'' (loader_classList d)\<rparr>
      else d\<lparr>loader_classList := classList_add ''hidden'' (loader_classList d)\<rparr>)"

text \<open>The loading flag of the specification: the loader is shown.\<close>

definition loading :: "dom \<Rightarrow> bool" where
  "loading d = (''hidden'' \<notin> set (loader_classList d))"

definition set_innerHTML :: "string \<Rightarrow> dom \<Rightarrow> dom" where
  "set_innerHTML markup d =
     d\<lparr>newsResults_innerHTML := markup, newsResults_children := []\<rparr>"

definition appendChild :: "element \<Rightarrow> dom \<Rightarrow> dom" where
  "appendChild e d = d\<lparr>newsResults_children := newsResults_children d @ [e]\<rparr>"

definition console_error :: "string \<Rightarrow> error \<Rightarrow> dom \<Rightarrow> dom" where
  "console_error label e d = d\<lparr>console := console d @ [(label, e)]\<rparr>"

section \<open>fetchAndDisplayNews\<close>

text \<open>
  The template literal assigned to \<^verbatim>\<open>newsItem.innerHTML\<close> (lines 85 to 90), with its line
  breaks and indentation: the URL goes into the \<^verbatim>\<open>href\<close> attribute as it is, the title and
  the source name go through \<open>escapeHtml\<close>.
\<close>

definition newsItem_innerHTML :: "string \<Rightarrow> string \<Rightarrow> string \<Rightarrow> string" where
  "newsItem_innerHTML uri title sourceName =
     ''\<newline>                  <a href=\"'' @ uri
       @ ''\" target=\"_blank\" rel=\"noopener noreferrer\">''
     @ ''\<newline>                    <h3>'' @ escapeHtml title @ ''</h3>''
     @ ''\<newline>                    <p>'' @ escapeHtml sourceName @ ''</p>''
     @ ''\<newline>                  </a>''
     @ ''\<newline>                ''"

text \<open>
  The body of the loop (lines 76 to 92). The result is \<open>Inr\<close> of the page when the body
  completes and \<open>Inl\<close> of the error and the page at that moment when it throws.
  \<^verbatim>\<open>new URL(uri)\<close> is evaluated before the template literal, where \<^verbatim>\<open>escapeHtml(title)\<close>
  throws a \<^verbatim>\<open>TypeError\<close> when the title is not a string (it has no method \<^verbatim>\<open>replace\<close>).
  A truthy value is not \<^verbatim>\<open>undefined\<close>, so the last case of the pair is never taken.
\<close>

definition render_article :: "'n env \<Rightarrow> 'n json \<Rightarrow> dom \<Rightarrow> (error \<times> dom) + dom" where
  "render_article env article d =
     (case get_property article ''title'' of
        Inl e \<Rightarrow> Inl (e, d)
      | Inr title \<Rightarrow>
          if \<not> ToBoolean env title then Inr d
          else (case get_property article ''url'' of
             Inl e \<Rightarrow> Inl (e, d)
           | Inr uri \<Rightarrow>
               if \<not> ToBoolean env uri then Inr d
               else (case (title, uri) of
                  (Some title, Some uri) \<Rightarrow>
                    (case URL_hostname env (ToString env uri) of
                       None \<Rightarrow> Inl (TypeError, d)
                     | Some hostname \<Rightarrow>
                         (let sourceName = strip_www hostname
                          in case title of
                               JStr t \<Rightarrow>
                                 Inr (appendChild
                                   \<lparr>className = ''news-item'',
                                    innerHTML =
                                      newsItem_innerHTML (ToString env uri) t sourceName\<rparr> d)
                             | _ \<Rightarrow> Inl (TypeError, d)))
                | _ \<Rightarrow> Inr d)))"

text \<open>\<^verbatim>\<open>for (const article of articles)\<close>: the first body that throws ends the loop.\<close>

fun render_articles :: "'n env \<Rightarrow> 'n json list \<Rightarrow> dom \<Rightarrow> (error \<times> dom) + dom" where
  "render_articles env [] d = Inr d"
| "render_articles env (article # articles) d =
     (case render_article env article d of
        Inl thrown \<Rightarrow> Inl thrown
      | Inr d' \<Rightarrow> render_articles env articles d')"

fun isArray :: "'n json \<Rightarrow> bool" where
  "isArray (JArr xs) = True"
| "isArray v = False"

fun elements :: "'n json \<Rightarrow> 'n json list" where
  "elements (JArr xs) = xs"
| "elements v = []"

text \<open>
  The body of the inner \<^verbatim>\<open>try\<close> (lines 60 to 93). The \<^verbatim>\<open>return\<close> of line 72 leaves the
  function through the \<^verbatim>\<open>finally\<close> block; nothing follows the inner \<^verbatim>\<open>try\<close> in the outer
  one, so it is the normal completion of this body.
\<close>

definition parse_and_render :: "'n env \<Rightarrow> string \<Rightarrow> dom \<Rightarrow> (error \<times> dom) + dom" where
  "parse_and_render env textResponse d =
     (let jsonStart = indexOf textResponse CHR ''['';
          jsonEnd = lastIndexOf textResponse CHR '']''
      in if jsonStart = - 1 \<or> jsonEnd = - 1
         then Inl (Error ''Could not find a valid JSON array in the response.'', d)
         else (let jsonString = substring textResponse jsonStart (jsonEnd + 1)
               in case JSON_parse env jsonString of
                 None \<Rightarrow> Inl (SyntaxError, d)
               | Some articles \<Rightarrow>
                   if \<not> isArray articles \<or> length (elements articles) = 0
                   then Inr (set_innerHTML
                     ''<p>No trending news could be retrieved at this time.</p>'' d)
                   else render_articles env (elements articles) d))"

text \<open>The substring that line 67 hands to \<^verbatim>\<open>JSON.parse\<close>, as a function of the response text.\<close>

definition jsonString_of :: "string \<Rightarrow> string" where
  "jsonString_of textResponse =
     substring textResponse (indexOf textResponse CHR ''['')
       (lastIndexOf textResponse CHR '']'' + 1)"

text \<open>The markup of line 98: the escaped response text, every line feed replaced by a break.\<close>

definition fallback_markup :: "string \<Rightarrow> string" where
  "fallback_markup textResponse =
     ''<p>'' @ replace_g (CHR 0x0A) ''<br>'' (escapeHtml textResponse) @ ''</p>''"

text \<open>The inner \<^verbatim>\<open>try\<close> with its \<^verbatim>\<open>catch (parseError)\<close> (lines 57 to 99).\<close>

definition display_news :: "'n env \<Rightarrow> string \<Rightarrow> dom \<Rightarrow> dom" where
  "display_news env textResponse d =
     (case parse_and_render env textResponse d of
        Inr d' \<Rightarrow> d'
      | Inl (parseError, d') \<Rightarrow>
          set_innerHTML (fallback_markup textResponse)
            (console_error ''Failed to parse JSON response:'' parseError d'))"

text \<open>
  What the awaited call \<^verbatim>\<open>ai.models.generateContent\<close> does: it rejects, or it resolves to
  a response whose \<^verbatim>\<open>text\<close> is a string or \<^verbatim>\<open>undefined\<close>.
\<close>

datatype outcome = Rejects | Resolves "string option"

text \<open>The body of the outer \<^verbatim>\<open>try\<close> (lines 43 to 99).\<close>

definition fetch_news :: "'n env \<Rightarrow> outcome \<Rightarrow> dom \<Rightarrow> (error \<times> dom) + dom" where
  "fetch_news env response d =
     (case response of
        Rejects \<Rightarrow> Inl (Rejection, d)
      | Resolves textResponse \<Rightarrow>
          (case textResponse of
             None \<Rightarrow> Inl (Error ''Received an empty response from the API.'', d)
           | Some text \<Rightarrow>
               if text = []
               then Inl (Error ''Received an empty response from the API.'', d)
               else Inr (display_news env text d)))"

text \<open>
  The whole function (lines 32 to 108). \<open>ai\<close> tells whether the client was constructed
  at startup; \<open>response\<close> is the outcome of the awaited call. The last \<open>showLoading False\<close>
  is the \<^verbatim>\<open>finally\<close> block.
\<close>

definition fetchAndDisplayNews :: "'n env \<Rightarrow> bool \<Rightarrow> outcome \<Rightarrow> dom \<Rightarrow> dom" where
  "fetchAndDisplayNews env ai response d =
     (let d = showLoading True d;
          d = set_innerHTML [] d
      in if \<not> ai
         then showLoading False
           (set_innerHTML
             ''<p>The AI client is not initialized. Please ensure your API key is configured correctly.</p>''
             d)
         else showLoading False
           (case fetch_news env response d of
              Inr d' \<Rightarrow> d'
            | Inl (error, d') \<Rightarrow>
                set_innerHTML
                  ''<p>An error occurred while fetching news. Please check the console for details.</p>''
                  (console_error ''Error fetching news:'' error d')))"

section \<open>The specification's words\<close>

text \<open>
  A record is valid when both fields are present and non-empty: the condition
  \<^verbatim>\<open>article.title && article.url\<close> of line 76 on a value that is not null.
\<close>

definition valid_record :: "'n env \<Rightarrow> 'n json \<Rightarrow> bool" where
  "valid_record env article =
     (ToBoolean env (property article ''title'') \<and> ToBoolean env (property article ''url''))"


section \<open>A platform and a page for the examples\<close>

text \<open>
  The examples below run on this instance of the platform: \<^verbatim>\<open>JSON.parse\<close> and the host name
  of \<^verbatim>\<open>new URL\<close> on the strings that the examples use, with the values that the JSON and
  URL standards give them; both throw on every other string, as they do on \<^verbatim>\<open>[c]\<close> and on
  \<^verbatim>\<open>not a url\<close>. The examples hold no numbers. \<open>CHR 0x5C\<close> is the backslash that escapes a
  double quote inside a JSON string.
\<close>

definition example_env :: "unit env" where
  "example_env =
     \<lparr>JSON_parse = map_of
        [(''[{\"title\":\"A\",\"url\":\"https://www.example.com/a\"}]'',
          JArr [JObj [(''title'', JStr ''A''), (''url'', JStr ''https://www.example.com/a'')]]),
         (''[]'', JArr []),
         (''[{\"title\":\"A\",\"url\":\"https://www.example.com/a\"},{\"title\":\"B\"},{\"title\":\"\",\"url\":\"https://d.example/\"},{\"title\":\"C\",\"url\":\"https://news.example.org/c\"},{\"title\":\"D\",\"url\":[\"https://www.a.example/x\"]}]'',
          JArr [JObj [(''title'', JStr ''A''), (''url'', JStr ''https://www.example.com/a'')],
                JObj [(''title'', JStr ''B'')],
                JObj [(''title'', JStr []), (''url'', JStr ''https://d.example/'')],
                JObj [(''title'', JStr ''C''), (''url'', JStr ''https://news.example.org/c'')],
                JObj [(''title'', JStr ''D''), (''url'', JArr [JStr ''https://www.a.example/x''])]]),
         (''[{\"title\":\"A\",\"url\":\"https://www.example.com/a\"},{\"title\":\"B\"},{\"title\":\"C\",\"url\":\"not a url\"}]'',
          JArr [JObj [(''title'', JStr ''A''), (''url'', JStr ''https://www.example.com/a'')],
                JObj [(''title'', JStr ''B'')],
                JObj [(''title'', JStr ''C''), (''url'', JStr ''not a url'')]]),
         (''[{\"title\":\"A\",\"url\":\"https://www.example.com/a\"},{\"title\":\"B\",\"url\":\"not a url\"},{\"title\":\"C\",\"url\":\"https://news.example.org/c\"}]'',
          JArr [JObj [(''title'', JStr ''A''), (''url'', JStr ''https://www.example.com/a'')],
                JObj [(''title'', JStr ''B''), (''url'', JStr ''not a url'')],
                JObj [(''title'', JStr ''C''), (''url'', JStr ''https://news.example.org/c'')]]),
         (''[{\"title\":\"A\",\"url\":\"https://example.com/?q='' @ [CHR 0x5C] @ ''\"x''
            @ [CHR 0x5C] @ ''\"&r=1\"}]'',
          JArr [JObj [(''title'', JStr ''A''),
                      (''url'', JStr ''https://example.com/?q=\"x\"&r=1'')]])],
      URL_hostname = map_of
        [(''https://www.example.com/a'', ''www.example.com''),
         (''https://news.example.org/c'', ''news.example.org''),
         (''https://d.example/'', ''d.example''),
         (''https://www.a.example/x'', ''www.a.example''),
         (''https://example.com/?q=\"x\"&r=1'', ''example.com'')],
      Number_ToBoolean = (\<lambda>n. False),
      Number_ToString = (\<lambda>n. ''0'')\<rparr>"

definition example_page :: dom where
  "example_page =
     \<lparr>loader_classList = [''hidden''], newsResults_innerHTML = [],
      newsResults_children = [], console = []\<rparr>"

section \<open>Properties of escapeHtml\<close>

lemma replace_g_append:
  "replace_g c r (xs @ ys) = replace_g c r xs @ replace_g c r ys"
  by (induction xs) simp_all

lemma replace_g_concat_map:
  "replace_g c r (concat (map f xs)) = concat (map (\<lambda>x. replace_g c r (f x)) xs)"
  by (induction xs) (simp_all add: replace_g_append)

lemma replace_g_conv:
  "replace_g c r xs = concat (map (\<lambda>x. if x = c then r else [x]) xs)"
  by (induction xs) simp_all

text \<open>
  The five replacements in sequence amount to one pass that maps every character to
  its entity: no replacement text contains a character that a later step replaces.
\<close>

lemma escapeHtml_entity: "escapeHtml s = concat (map entity_of s)"
proof -
  have "escapeHtml s =
      concat (map (\<lambda>x. replace_g (CHR 0x27) ''&#039;''
        (replace_g (CHR 0x22) ''&quot;''
          (replace_g CHR ''>'' ''&gt;''
            (replace_g CHR ''<'' ''&lt;''
              (if x = CHR ''&'' then ''&amp;'' else [x]))))) s)"
    unfolding escapeHtml_def
    by (subst replace_g_conv[of "CHR ''&''"]) (simp only: replace_g_concat_map)
  also have "\<dots> = concat (map entity_of s)"
    by (rule arg_cong[where f = concat], rule map_cong[OF refl])
      (simp add: entity_of_def named_entity_def)
  finally show ?thesis .
qed

lemma escapeHtml_Nil: "escapeHtml [] = []"
  by (simp add: escapeHtml_entity)

lemma escapeHtml_Cons: "escapeHtml (c # s) = entity_of c @ escapeHtml s"
  by (simp add: escapeHtml_entity)

lemma escapeHtml_append: "escapeHtml (s @ t) = escapeHtml s @ escapeHtml t"
  by (simp add: escapeHtml_entity)

lemma set_escapeHtml:
  "set (escapeHtml s) \<inter> {CHR ''<'', CHR ''>'', CHR 0x22, CHR 0x27} = {}"
  by (induction s)
    (auto simp: escapeHtml_Nil escapeHtml_Cons entity_of_def named_entity_def split: if_splits)

lemma escapeHtml_id: "set s \<inter> html_special = {} \<Longrightarrow> escapeHtml s = s"
  by (induction s)
    (auto simp: escapeHtml_Nil escapeHtml_Cons entity_of_def named_entity_def html_special_def)

lemma entity_of_amp:
  "i < length (entity_of c) \<Longrightarrow> entity_of c ! i = CHR ''&'' \<Longrightarrow>
     i = 0 \<and> entity_of c \<in> set entities"
  by (auto simp: entity_of_def named_entity_def entities_def nth_Cons' split: if_splits)

lemma amp_starts_entity:
  "i < length (escapeHtml s) \<Longrightarrow> escapeHtml s ! i = CHR ''&'' \<Longrightarrow>
     \<exists>e \<in> set entities. take (length e) (drop i (escapeHtml s)) = e"
proof (induction s arbitrary: i)
  case Nil
  then show ?case by (simp add: escapeHtml_Nil)
next
  case (Cons c s)
  show ?case
  proof (cases "i < length (entity_of c)")
    case True
    with Cons.prems have "entity_of c ! i = CHR ''&''"
      by (simp add: escapeHtml_Cons nth_append)
    with True have "i = 0" and "entity_of c \<in> set entities"
      using entity_of_amp by blast+
    then show ?thesis
      by (intro bexI[of _ "entity_of c"]) (simp_all add: escapeHtml_Cons)
  next
    case False
    define j where "j = i - length (entity_of c)"
    from False Cons.prems
    have "j < length (escapeHtml s)" "escapeHtml s ! j = CHR ''&''"
      by (simp_all add: j_def escapeHtml_Cons nth_append)
    from Cons.IH[OF this] obtain e where "e \<in> set entities"
      "take (length e) (drop j (escapeHtml s)) = e" by blast
    moreover from False have "drop i (escapeHtml (c # s)) = drop j (escapeHtml s)"
      by (simp add: escapeHtml_Cons j_def)
    ultimately show ?thesis by auto
  qed
qed

lemma length_escapeHtml: "length s \<le> length (escapeHtml s)"
  by (induction s) (auto simp: escapeHtml_Nil escapeHtml_Cons entity_of_def named_entity_def)

lemma length_escapeHtml_special:
  "set s \<inter> html_special \<noteq> {} \<Longrightarrow> length s < length (escapeHtml s)"
proof (induction s)
  case Nil
  then show ?case by simp
next
  case (Cons c s)
  show ?case
  proof (cases "c \<in> html_special")
    case True
    then have "1 < length (entity_of c)"
      by (auto simp: entity_of_def named_entity_def html_special_def)
    with length_escapeHtml[of s] show ?thesis
      by (simp add: escapeHtml_Cons)
  next
    case False
    with Cons.prems have "set s \<inter> html_special \<noteq> {}" by auto
    moreover have "1 \<le> length (entity_of c)"
      by (simp add: entity_of_def named_entity_def)
    ultimately show ?thesis
      using Cons.IH by (simp add: escapeHtml_Cons)
  qed
qed

lemma escapeHtml_has_amp:
  "set s \<inter> html_special \<noteq> {} \<Longrightarrow> CHR ''&'' \<in> set (escapeHtml s)"
  by (induction s)
    (auto simp: escapeHtml_Nil escapeHtml_Cons entity_of_def named_entity_def html_special_def
      split: if_splits)

text \<open>
  C2, amended. \<open>escapeHtml\<close> is a function of its argument alone. Each of \<^verbatim>\<open>& < > "\<close> is
  replaced by exactly its named entity \<^verbatim>\<open>&amp; &lt; &gt; &quot;\<close>, the single quote by the
  numeric character reference \<^verbatim>\<open>&#039;\<close>, and every other character is kept. So the output
  holds no \<^verbatim>\<open>< > " '\<close> at all and every \<^verbatim>\<open>&\<close> of the output starts one of the five
  replacement texts; an input with none of the five characters is returned unchanged.
\<close>

theorem escapeHtml_replaces_special:
  "escapeHtml s = concat (map entity_of s)
   \<and> set (escapeHtml s) \<inter> {CHR ''<'', CHR ''>'', CHR 0x22, CHR 0x27} = {}
   \<and> (\<forall>i < length (escapeHtml s). escapeHtml s ! i = CHR ''&'' \<longrightarrow>
        (\<exists>e \<in> set entities. take (length e) (drop i (escapeHtml s)) = e))
   \<and> (set s \<inter> html_special = {} \<longrightarrow> escapeHtml s = s)"
proof (intro conjI allI impI)
  show "escapeHtml s = concat (map entity_of s)"
    by (rule escapeHtml_entity)
  show "set (escapeHtml s) \<inter> {CHR ''<'', CHR ''>'', CHR 0x22, CHR 0x27} = {}"
    by (rule set_escapeHtml)
  show "\<exists>e \<in> set entities. take (length e) (drop i (escapeHtml s)) = e"
    if "i < length (escapeHtml s)" "escapeHtml s ! i = CHR ''&''" for i
    using that by (rule amp_starts_entity)
  show "escapeHtml s = s" if "set s \<inter> html_special = {}"
    using that by (rule escapeHtml_id)
qed

theorem escapeHtml_replaces_special_witness:
  "escapeHtml ''a<b & c'' = ''a&lt;b &amp; c''
   \<and> (\<exists>e \<in> set entities. take (length e) (drop 1 (escapeHtml ''a<b & c'')) = e)
   \<and> escapeHtml (''it'' @ [CHR 0x27] @ ''s'') = ''it&#039;s''
   \<and> escapeHtml ''plain text'' = ''plain text''"
proof -
  note w = escapeHtml_replaces_special[of "''a<b & c''"]
  have a: "escapeHtml ''a<b & c'' = ''a&lt;b &amp; c''"
    using w[THEN conjunct1] by (simp add: entity_of_def named_entity_def)
  have "1 < length (escapeHtml ''a<b & c'')" "escapeHtml ''a<b & c'' ! 1 = CHR ''&''"
    by (simp_all add: a)
  with w[THEN conjunct2, THEN conjunct2, THEN conjunct1]
  have b: "\<exists>e \<in> set entities. take (length e) (drop 1 (escapeHtml ''a<b & c'')) = e"
    by blast
  have q: "escapeHtml (''it'' @ [CHR 0x27] @ ''s'') = ''it&#039;s''"
    using escapeHtml_replaces_special[of "''it'' @ [CHR 0x27] @ ''s''", THEN conjunct1]
    by (simp add: entity_of_def named_entity_def)
  have "set ''plain text'' \<inter> html_special = {}"
    by (simp add: html_special_def)
  with escapeHtml_replaces_special[of "''plain text''"]
  have c: "escapeHtml ''plain text'' = ''plain text''"
    by blast
  from a b q c show ?thesis by blast
qed

text \<open>
  C2 as it is worded fails at the input that holds one single quote: the named entity
  equivalent of the single quote is \<^verbatim>\<open>&apos;\<close>, and \<open>escapeHtml\<close> returns \<^verbatim>\<open>&#039;\<close>.
\<close>

theorem escapeHtml_single_quote_counterexample:
  "escapeHtml [CHR 0x27] = ''&#039;''
   \<and> concat (map named_entity [CHR 0x27]) = ''&apos;''
   \<and> escapeHtml [CHR 0x27] \<noteq> concat (map named_entity [CHR 0x27])"
  by (simp add: escapeHtml_def named_entity_def)

text \<open>
  C7. Escaping twice differs from escaping once exactly when the input holds one of the
  five characters: the \<^verbatim>\<open>&\<close> of every entity written by the first pass is escaped again
  by the second. On every other input both passes return the input.
\<close>

theorem escapeHtml_twice:
  "(escapeHtml (escapeHtml s) = escapeHtml s) = (set s \<inter> html_special = {})"
proof
  assume eq: "escapeHtml (escapeHtml s) = escapeHtml s"
  show "set s \<inter> html_special = {}"
  proof (rule ccontr)
    assume "set s \<inter> html_special \<noteq> {}"
    then have "CHR ''&'' \<in> set (escapeHtml s)"
      by (rule escapeHtml_has_amp)
    then have "set (escapeHtml s) \<inter> html_special \<noteq> {}"
      by (auto simp: html_special_def)
    then have "length (escapeHtml s) < length (escapeHtml (escapeHtml s))"
      by (rule length_escapeHtml_special)
    with eq show False by simp
  qed
next
  assume "set s \<inter> html_special = {}"
  then show "escapeHtml (escapeHtml s) = escapeHtml s"
    by (simp add: escapeHtml_id)
qed

theorem escapeHtml_twice_witness:
  "escapeHtml (escapeHtml ''<'') \<noteq> escapeHtml ''<''
   \<and> escapeHtml (escapeHtml ''<'') = ''&amp;lt;''
   \<and> escapeHtml ''<'' = ''&lt;''"
proof -
  have "escapeHtml (escapeHtml ''<'') \<noteq> escapeHtml ''<''"
    using escapeHtml_twice[of "''<''"] by (simp add: html_special_def)
  moreover have "escapeHtml (escapeHtml ''<'') = ''&amp;lt;''"
    by (simp add: escapeHtml_def)
  moreover have "escapeHtml ''<'' = ''&lt;''"
    by (simp add: escapeHtml_def)
  ultimately show ?thesis by blast
qed

section \<open>Properties of the page operations\<close>

lemma not_loading_showLoading_False: "\<not> loading (showLoading False d)"
  by (simp add: loading_def showLoading_def classList_add_def)

lemma showLoading_results:
  "newsResults_innerHTML (showLoading b d) = newsResults_innerHTML d"
  "newsResults_children (showLoading b d) = newsResults_children d"
  "console (showLoading b d) = console d"
  by (simp_all add: showLoading_def)

lemma set_innerHTML_results:
  "newsResults_innerHTML (set_innerHTML m d) = m"
  "newsResults_children (set_innerHTML m d) = []"
  "console (set_innerHTML m d) = console d"
  "loader_classList (set_innerHTML m d) = loader_classList d"
  by (simp_all add: set_innerHTML_def)

lemma console_error_results:
  "newsResults_innerHTML (console_error l e d) = newsResults_innerHTML d"
  "newsResults_children (console_error l e d) = newsResults_children d"
  "console (console_error l e d) = console d @ [(l, e)]"
  by (simp_all add: console_error_def)

lemma appendChild_results:
  "newsResults_innerHTML (appendChild x d) = newsResults_innerHTML d"
  "newsResults_children (appendChild x d) = newsResults_children d @ [x]"
  "console (appendChild x d) = console d"
  by (simp_all add: appendChild_def)

lemmas results = showLoading_results set_innerHTML_results console_error_results
  appendChild_results

section \<open>Properties of the rendering loop\<close>

lemma ToBoolean_Some: "ToBoolean env v \<Longrightarrow> \<exists>y. v = Some y"
  by (cases v) simp_all




lemma render_article_invalid_url:
  "valid_record env article \<Longrightarrow> property article ''url'' = Some uri \<Longrightarrow>
   URL_hostname env (ToString env uri) = None \<Longrightarrow>
   render_article env article d = Inl (TypeError, d)"
  by (cases article)
    (auto simp: render_article_def valid_record_def split: option.splits
      dest: ToBoolean_Some)



lemma render_articles_throws:
  "article \<in> set articles \<Longrightarrow>
   \<forall>d. \<exists>thrown. render_article env article d = Inl thrown \<Longrightarrow>
   \<exists>thrown. render_articles env articles d = Inl thrown"
proof (induction articles arbitrary: d)
  case Nil
  then show ?case by simp
next
  case (Cons a as)
  show ?case
  proof (cases "render_article env a d")
    case (Inl thrown)
    then show ?thesis by simp
  next
    case (Inr d')
    have "article \<noteq> a"
    proof
      assume "article = a"
      with Cons.prems(2) obtain thrown where "render_article env a d = Inl thrown"
        by blast
      with Inr show False by simp
    qed
    with Cons.prems(1) have "article \<in> set as" by simp
    from Cons.IH[OF this Cons.prems(2)] Inr show ?thesis by simp
  qed
qed


section \<open>Properties of fetchAndDisplayNews\<close>

lemma fetchAndDisplayNews_text:
  "text \<noteq> [] \<Longrightarrow>
   fetchAndDisplayNews env True (Resolves (Some text)) d =
     showLoading False (display_news env text (set_innerHTML [] (showLoading True d)))"
  by (simp add: fetchAndDisplayNews_def fetch_news_def Let_def)

lemma indexOf_Nil_conv: "indexOf s c \<noteq> - 1 \<Longrightarrow> s \<noteq> []"
  by (cases s) simp_all

lemma parse_and_render_found:
  "indexOf text CHR ''['' \<noteq> - 1 \<Longrightarrow> lastIndexOf text CHR '']'' \<noteq> - 1 \<Longrightarrow>
   parse_and_render env text d =
     (case JSON_parse env (jsonString_of text) of
        None \<Rightarrow> Inl (SyntaxError, d)
      | Some articles \<Rightarrow>
          if \<not> isArray articles \<or> length (elements articles) = 0
          then Inr (set_innerHTML
            ''<p>No trending news could be retrieved at this time.</p>'' d)
          else render_articles env (elements articles) d)"
  by (simp add: parse_and_render_def jsonString_of_def Let_def)

lemma fetchAndDisplayNews_found:
  assumes "indexOf text CHR ''['' \<noteq> - 1" and "lastIndexOf text CHR '']'' \<noteq> - 1"
  shows "fetchAndDisplayNews env True (Resolves (Some text)) d =
     showLoading False
       (case (case JSON_parse env (jsonString_of text) of
                None \<Rightarrow> Inl (SyntaxError, set_innerHTML [] (showLoading True d))
              | Some articles \<Rightarrow>
                  if \<not> isArray articles \<or> length (elements articles) = 0
                  then Inr (set_innerHTML
                    ''<p>No trending news could be retrieved at this time.</p>''
                    (set_innerHTML [] (showLoading True d)))
                  else render_articles env (elements articles)
                    (set_innerHTML [] (showLoading True d))) of
          Inr d' \<Rightarrow> d'
        | Inl (parseError, d') \<Rightarrow>
            set_innerHTML (fallback_markup text)
              (console_error ''Failed to parse JSON response:'' parseError d'))"
proof -
  from assms(1) have "text \<noteq> []" by (rule indexOf_Nil_conv)
  then show ?thesis
    by (simp add: fetchAndDisplayNews_text display_news_def
        parse_and_render_found[OF assms])
qed

text \<open>
  C1. The claim wants the URL escaped before it goes into the \<^verbatim>\<open>href\<close> attribute. Line 86
  inserts it as it is, while lines 87 and 88 escape the title and the host label: for the
  response whose one record has the URL \<^verbatim>\<open>https://example.com/?q="x"&r=1\<close>, the markup of
  the rendered entry holds the two double quotes and the ampersand of the URL unescaped
  inside the attribute.
\<close>

theorem href_not_escaped:
  "map innerHTML (newsResults_children
       (fetchAndDisplayNews example_env True
          (Resolves (Some (''[{\"title\":\"A\",\"url\":\"https://example.com/?q='' @ [CHR 0x5C]
             @ ''\"x'' @ [CHR 0x5C] @ ''\"&r=1\"}]'')))
          example_page)) =
     [''\<newline>                  <a href=\"https://example.com/?q=\"x\"&r=1\" target=\"_blank\" rel=\"noopener noreferrer\">\<newline>                    <h3>A</h3>\<newline>                    <p>example.com</p>\<newline>                  </a>\<newline>                '']"
proof -
  let ?text = "''[{\"title\":\"A\",\"url\":\"https://example.com/?q='' @ [CHR 0x5C]
             @ ''\"x'' @ [CHR 0x5C] @ ''\"&r=1\"}]''"
  have found: "indexOf ?text CHR ''['' \<noteq> - 1" "lastIndexOf ?text CHR '']'' \<noteq> - 1"
    by (simp_all add: lastIndexOf_def Let_def)
  have js: "jsonString_of ?text = ?text"
    by (simp add: jsonString_of_def substring_def lastIndexOf_def Let_def)
  show ?thesis
    unfolding fetchAndDisplayNews_found[OF found] js
    by (simp add: example_env_def render_article_def strip_www_def results
        newsItem_innerHTML_def escapeHtml_def)
qed

text \<open>
  C3. Whatever the platform, the client, the outcome of the service call and the page
  before the call are, the loader is hidden when \<open>fetchAndDisplayNews\<close> returns: the
  loading flag is false on the path without a client, after a rejected call, after an
  empty response, after the fallback to the raw text, after the return for an empty
  array and after rendering.
\<close>

theorem loading_cleared: "\<not> loading (fetchAndDisplayNews env ai response d)"
  by (simp add: fetchAndDisplayNews_def Let_def not_loading_showLoading_False)

theorem loading_cleared_witness:
  "\<not> loading (fetchAndDisplayNews example_env False Rejects example_page)
   \<and> \<not> loading (fetchAndDisplayNews example_env True Rejects example_page)
   \<and> \<not> loading (fetchAndDisplayNews example_env True (Resolves None) example_page)
   \<and> \<not> loading (fetchAndDisplayNews example_env True
          (Resolves (Some ''no brackets here'')) example_page)
   \<and> \<not> loading (fetchAndDisplayNews example_env True (Resolves (Some ''[]'')) example_page)
   \<and> \<not> loading (fetchAndDisplayNews example_env True
          (Resolves (Some ''[{\"title\":\"A\",\"url\":\"https://www.example.com/a\"}]''))
          example_page)"
  by (intro conjI loading_cleared)

text \<open>
  C4. For the response text
  \<^verbatim>\<open>Here are headlines: [{"title":"A","url":"https://www.example.com/a"}] enjoy\<close>
  the slice from the first \<^verbatim>\<open>[\<close> to the last \<^verbatim>\<open>]\<close> is exactly the JSON array. On a platform
  where \<^verbatim>\<open>JSON.parse\<close> reads that array as the one record with title \<^verbatim>\<open>A\<close> and URL
  \<^verbatim>\<open>https://www.example.com/a\<close>, and where the host name of that URL is
  \<^verbatim>\<open>www.example.com\<close>, the results container holds exactly one entry, built from that
  URL, the title \<^verbatim>\<open>A\<close> and the host label \<^verbatim>\<open>example.com\<close>.
\<close>

theorem example_headline:
  assumes "JSON_parse env ''[{\"title\":\"A\",\"url\":\"https://www.example.com/a\"}]'' =
      Some (JArr [JObj [(''title'', JStr ''A''), (''url'', JStr ''https://www.example.com/a'')]])"
    and "URL_hostname env ''https://www.example.com/a'' = Some ''www.example.com''"
  shows "jsonString_of
       ''Here are headlines: [{\"title\":\"A\",\"url\":\"https://www.example.com/a\"}] enjoy'' =
       ''[{\"title\":\"A\",\"url\":\"https://www.example.com/a\"}]''
     \<and> newsResults_children
       (fetchAndDisplayNews env True
          (Resolves (Some
            ''Here are headlines: [{\"title\":\"A\",\"url\":\"https://www.example.com/a\"}] enjoy''))
          d) =
       [\<lparr>className = ''news-item'',
         innerHTML = newsItem_innerHTML ''https://www.example.com/a'' ''A'' ''example.com''\<rparr>]
     \<and> newsResults_innerHTML
       (fetchAndDisplayNews env True
          (Resolves (Some
            ''Here are headlines: [{\"title\":\"A\",\"url\":\"https://www.example.com/a\"}] enjoy''))
          d) = []"
proof -
  let ?text = "''Here are headlines: [{\"title\":\"A\",\"url\":\"https://www.example.com/a\"}] enjoy''"
  have found: "indexOf ?text CHR ''['' \<noteq> - 1" "lastIndexOf ?text CHR '']'' \<noteq> - 1"
    by (simp_all add: lastIndexOf_def Let_def)
  have js: "jsonString_of ?text = ''[{\"title\":\"A\",\"url\":\"https://www.example.com/a\"}]''"
    by (simp add: jsonString_of_def substring_def lastIndexOf_def Let_def)
  have "render_article env
      (JObj [(''title'', JStr ''A''), (''url'', JStr ''https://www.example.com/a'')]) d' =
      Inr (appendChild \<lparr>className = ''news-item'',
         innerHTML = newsItem_innerHTML ''https://www.example.com/a'' ''A'' ''example.com''\<rparr> d')"
    for d'
    by (simp add: render_article_def assms(2) strip_www_def)
  then have "fetchAndDisplayNews env True (Resolves (Some ?text)) d =
      showLoading False (appendChild \<lparr>className = ''news-item'',
         innerHTML = newsItem_innerHTML ''https://www.example.com/a'' ''A'' ''example.com''\<rparr>
        (set_innerHTML [] (showLoading True d)))"
    by (simp add: fetchAndDisplayNews_found[OF found] js assms(1))
  with js show ?thesis
    by (simp add: results)
qed

theorem example_headline_witness:
  "map innerHTML (newsResults_children
       (fetchAndDisplayNews example_env True
          (Resolves (Some
            ''Here are headlines: [{\"title\":\"A\",\"url\":\"https://www.example.com/a\"}] enjoy''))
          example_page)) =
     [''\<newline>                  <a href=\"https://www.example.com/a\" target=\"_blank\" rel=\"noopener noreferrer\">\<newline>                    <h3>A</h3>\<newline>                    <p>example.com</p>\<newline>                  </a>\<newline>                '']"
proof -
  have "JSON_parse example_env ''[{\"title\":\"A\",\"url\":\"https://www.example.com/a\"}]'' =
      Some (JArr [JObj [(''title'', JStr ''A''), (''url'', JStr ''https://www.example.com/a'')]])"
    and "URL_hostname example_env ''https://www.example.com/a'' = Some ''www.example.com''"
    by (simp_all add: example_env_def)
  from example_headline[OF this, of example_page] show ?thesis
    by (simp add: newsItem_innerHTML_def escapeHtml_def)
qed




text \<open>
  C6. For a non-empty response text (an empty one is the failure of C9 and never reaches
  the extraction) in which no \<^verbatim>\<open>[\<close> or no \<^verbatim>\<open>]\<close> is found, or whose extracted substring
  \<^verbatim>\<open>JSON.parse\<close> rejects, the results container holds one paragraph with the escaped text,
  every line feed replaced by \<^verbatim>\<open><br>\<close>, and no appended entry. The one error logged is the
  parse error under the label of line 97: the handler of the generic error message did
  not run.
\<close>

theorem raw_text_fallback:
  assumes "text \<noteq> []"
    and "indexOf text CHR ''['' = - 1 \<or> lastIndexOf text CHR '']'' = - 1
         \<or> JSON_parse env (jsonString_of text) = None"
  shows "newsResults_innerHTML (fetchAndDisplayNews env True (Resolves (Some text)) d) =
       ''<p>'' @ replace_g (CHR 0x0A) ''<br>'' (escapeHtml text) @ ''</p>''
     \<and> newsResults_children (fetchAndDisplayNews env True (Resolves (Some text)) d) = []
     \<and> (\<exists>parseError.
          console (fetchAndDisplayNews env True (Resolves (Some text)) d) =
            console d @ [(''Failed to parse JSON response:'', parseError)])"
proof -
  have "\<exists>parseError. parse_and_render env text (set_innerHTML [] (showLoading True d)) =
      Inl (parseError, set_innerHTML [] (showLoading True d))"
  proof (cases "indexOf text CHR ''['' = - 1 \<or> lastIndexOf text CHR '']'' = - 1")
    case True
    then show ?thesis by (auto simp: parse_and_render_def Let_def)
  next
    case False
    with assms(2) have "JSON_parse env (jsonString_of text) = None" by blast
    with False show ?thesis by (simp add: parse_and_render_found)
  qed
  then obtain parseError where
    "parse_and_render env text (set_innerHTML [] (showLoading True d)) =
      Inl (parseError, set_innerHTML [] (showLoading True d))" by blast
  then show ?thesis
    by (simp add: fetchAndDisplayNews_text[OF assms(1)] display_news_def results
        fallback_markup_def)
qed

theorem raw_text_fallback_witness:
  "newsResults_innerHTML
     (fetchAndDisplayNews example_env True (Resolves (Some ''no brackets here'')) example_page) =
     ''<p>no brackets here</p>''
   \<and> newsResults_innerHTML
     (fetchAndDisplayNews example_env True (Resolves (Some ''a <b>\<newline>[c]'')) example_page) =
     ''<p>a &lt;b&gt;<br>[c]</p>''"
proof -
  have "indexOf ''no brackets here'' CHR ''['' = - 1" by simp
  then have a: "newsResults_innerHTML
     (fetchAndDisplayNews example_env True (Resolves (Some ''no brackets here'')) example_page) =
     ''<p>no brackets here</p>''"
    using raw_text_fallback[of "''no brackets here''" example_env example_page]
    by (simp add: escapeHtml_def)
  have "JSON_parse example_env (jsonString_of ''a <b>\<newline>[c]'') = None"
    by (simp add: jsonString_of_def substring_def lastIndexOf_def Let_def example_env_def)
  then have b: "newsResults_innerHTML
     (fetchAndDisplayNews example_env True (Resolves (Some ''a <b>\<newline>[c]'')) example_page) =
     ''<p>a &lt;b&gt;<br>[c]</p>''"
    using raw_text_fallback[of "''a <b>\<newline>[c]''" example_env example_page]
    by (simp add: escapeHtml_def)
  from a b show ?thesis by blast
qed

text \<open>
  C8. When both brackets are found and the extracted substring parses to the empty array,
  the results container holds the message that no trending news could be retrieved and
  no entry, nothing is logged as an error, and the loader is hidden on return.
\<close>

theorem no_news_message:
  assumes "indexOf text CHR ''['' \<noteq> - 1" and "lastIndexOf text CHR '']'' \<noteq> - 1"
    and "JSON_parse env (jsonString_of text) = Some (JArr [])"
  shows "newsResults_innerHTML (fetchAndDisplayNews env True (Resolves (Some text)) d) =
       ''<p>No trending news could be retrieved at this time.</p>''
     \<and> newsResults_children (fetchAndDisplayNews env True (Resolves (Some text)) d) = []
     \<and> console (fetchAndDisplayNews env True (Resolves (Some text)) d) = console d
     \<and> \<not> loading (fetchAndDisplayNews env True (Resolves (Some text)) d)"
  by (simp add: fetchAndDisplayNews_found[OF assms(1,2)] assms(3) results
      not_loading_showLoading_False)

theorem no_news_message_witness:
  "jsonString_of ''[]'' = ''[]''
   \<and> newsResults_innerHTML
        (fetchAndDisplayNews example_env True (Resolves (Some ''[]'')) example_page) =
       ''<p>No trending news could be retrieved at this time.</p>''
   \<and> \<not> loading (fetchAndDisplayNews example_env True (Resolves (Some ''[]'')) example_page)"
proof -
  have js: "jsonString_of ''[]'' = ''[]''"
    by (simp add: jsonString_of_def substring_def lastIndexOf_def Let_def)
  have "indexOf ''[]'' CHR ''['' \<noteq> - 1" "lastIndexOf ''[]'' CHR '']'' \<noteq> - 1"
    by (simp_all add: lastIndexOf_def Let_def)
  moreover have "JSON_parse example_env (jsonString_of ''[]'') = Some (JArr [])"
    by (simp add: js example_env_def)
  ultimately show ?thesis
    using no_news_message[of "''[]''" example_env example_page] js by simp
qed

text \<open>
  C9. With a client, when the service call rejects, or resolves to a response whose text
  is \<^verbatim>\<open>undefined\<close> or the empty string, the results container holds the generic error
  message of line 104 and no entry, and the error is logged under the label of line 103.
\<close>

theorem generic_error_message:
  assumes "response = Rejects \<or> response = Resolves None \<or> response = Resolves (Some [])"
  shows "newsResults_innerHTML (fetchAndDisplayNews env True response d) =
       ''<p>An error occurred while fetching news. Please check the console for details.</p>''
     \<and> newsResults_children (fetchAndDisplayNews env True response d) = []
     \<and> (\<exists>error. console (fetchAndDisplayNews env True response d) =
          console d @ [(''Error fetching news:'', error)])"
  using assms
  by (auto simp add: fetchAndDisplayNews_def fetch_news_def Let_def results)

theorem generic_error_message_witness:
  "newsResults_innerHTML (fetchAndDisplayNews example_env True Rejects example_page) =
     ''<p>An error occurred while fetching news. Please check the console for details.</p>''
   \<and> newsResults_innerHTML
        (fetchAndDisplayNews example_env True (Resolves (Some [])) example_page) =
     ''<p>An error occurred while fetching news. Please check the console for details.</p>''
   \<and> newsResults_innerHTML
        (fetchAndDisplayNews example_env True (Resolves None) example_page) =
     ''<p>An error occurred while fetching news. Please check the console for details.</p>''"
  using generic_error_message[of Rejects example_env example_page]
    generic_error_message[of "Resolves (Some [])" example_env example_page]
    generic_error_message[of "Resolves None" example_env example_page]
  by simp

text \<open>
  C10. Let the extracted substring parse to an array that holds a record with both fields
  non-empty whose URL \<^verbatim>\<open>new URL\<close> rejects. The body of the loop throws a \<^verbatim>\<open>TypeError\<close> at that
  record, so the loop throws on the array, whatever the page is; the results container
  then holds the paragraph with the escaped response text and none of the entries
  appended before.
\<close>

theorem invalid_url_discards_batch:
  assumes "indexOf text CHR ''['' \<noteq> - 1" and "lastIndexOf text CHR '']'' \<noteq> - 1"
    and "JSON_parse env (jsonString_of text) = Some (JArr articles)"
    and "article \<in> set articles"
    and "valid_record env article"
    and "property article ''url'' = Some uri"
    and "URL_hostname env (ToString env uri) = None"
  shows "(\<forall>d'. render_article env article d' = Inl (TypeError, d'))
     \<and> (\<forall>d'. \<exists>thrown. render_articles env articles d' = Inl thrown)
     \<and> newsResults_innerHTML (fetchAndDisplayNews env True (Resolves (Some text)) d) =
         ''<p>'' @ replace_g (CHR 0x0A) ''<br>'' (escapeHtml text) @ ''</p>''
     \<and> newsResults_children (fetchAndDisplayNews env True (Resolves (Some text)) d) = []"
proof -
  have one: "\<forall>d'. render_article env article d' = Inl (TypeError, d')"
    using render_article_invalid_url[OF assms(5,6,7)] by blast
  then have "\<forall>d'. \<exists>thrown. render_article env article d' = Inl thrown" by simp
  then have loop: "\<forall>d'. \<exists>thrown. render_articles env articles d' = Inl thrown"
    using render_articles_throws[OF assms(4)] by blast
  then obtain e d' where
    "render_articles env articles (set_innerHTML [] (showLoading True d)) = Inl (e, d')"
    by (metis surj_pair)
  moreover from assms(4) have "articles \<noteq> []" by auto
  ultimately have
    "fetchAndDisplayNews env True (Resolves (Some text)) d =
       showLoading False (set_innerHTML (fallback_markup text)
         (console_error ''Failed to parse JSON response:'' e d'))"
    by (simp add: fetchAndDisplayNews_found[OF assms(1,2)] assms(3))
  with one loop show ?thesis
    by (simp add: results fallback_markup_def)
qed

theorem invalid_url_discards_batch_witness:
  "render_articles example_env
     [JObj [(''title'', JStr ''A''), (''url'', JStr ''https://www.example.com/a'')],
      JObj [(''title'', JStr ''B''), (''url'', JStr ''not a url'')],
      JObj [(''title'', JStr ''C''), (''url'', JStr ''https://news.example.org/c'')]]
     example_page =
     Inl (TypeError, example_page\<lparr>newsResults_children :=
       [\<lparr>className = ''news-item'',
         innerHTML = ''\<newline>                  <a href=\"https://www.example.com/a\" target=\"_blank\" rel=\"noopener noreferrer\">\<newline>                    <h3>A</h3>\<newline>                    <p>example.com</p>\<newline>                  </a>\<newline>                ''\<rparr>]\<rparr>)
   \<and> newsResults_children
     (fetchAndDisplayNews example_env True
        (Resolves (Some
          ''[{\"title\":\"A\",\"url\":\"https://www.example.com/a\"},{\"title\":\"B\",\"url\":\"not a url\"},{\"title\":\"C\",\"url\":\"https://news.example.org/c\"}]''))
        example_page) = []
   \<and> newsResults_innerHTML
     (fetchAndDisplayNews example_env True
        (Resolves (Some
          ''[{\"title\":\"A\",\"url\":\"https://www.example.com/a\"},{\"title\":\"B\",\"url\":\"not a url\"},{\"title\":\"C\",\"url\":\"https://news.example.org/c\"}]''))
        example_page) =
     ''<p>[{&quot;title&quot;:&quot;A&quot;,&quot;url&quot;:&quot;https://www.example.com/a&quot;},{&quot;title&quot;:&quot;B&quot;,&quot;url&quot;:&quot;not a url&quot;},{&quot;title&quot;:&quot;C&quot;,&quot;url&quot;:&quot;https://news.example.org/c&quot;}]</p>''"
proof -
  let ?text = "''[{\"title\":\"A\",\"url\":\"https://www.example.com/a\"},{\"title\":\"B\",\"url\":\"not a url\"},{\"title\":\"C\",\"url\":\"https://news.example.org/c\"}]''"
  let ?bad = "JObj [(''title'', JStr ''B''), (''url'', JStr ''not a url'')] :: unit json"
  let ?articles = "[JObj [(''title'', JStr ''A''), (''url'', JStr ''https://www.example.com/a'')],
      JObj [(''title'', JStr ''B''), (''url'', JStr ''not a url'')],
      JObj [(''title'', JStr ''C''), (''url'', JStr ''https://news.example.org/c'')]]"
  have found: "indexOf ?text CHR ''['' \<noteq> - 1" "lastIndexOf ?text CHR '']'' \<noteq> - 1"
    by (simp_all add: lastIndexOf_def Let_def)
  have "jsonString_of ?text = ?text"
    by (simp add: jsonString_of_def substring_def lastIndexOf_def Let_def)
  then have parsed: "JSON_parse example_env (jsonString_of ?text) = Some (JArr ?articles)"
    by (simp add: example_env_def)
  have bad: "?bad \<in> set ?articles" "valid_record example_env ?bad"
    "property ?bad ''url'' = Some (JStr ''not a url'')"
    "URL_hostname example_env (ToString example_env (JStr ''not a url'')) = None"
    by (simp_all add: valid_record_def example_env_def)
  note main = invalid_url_discards_batch[OF found parsed bad, of example_page]
  have loop: "render_articles example_env ?articles example_page =
     Inl (TypeError, example_page\<lparr>newsResults_children :=
       [\<lparr>className = ''news-item'',
         innerHTML = ''\<newline>                  <a href=\"https://www.example.com/a\" target=\"_blank\" rel=\"noopener noreferrer\">\<newline>                    <h3>A</h3>\<newline>                    <p>example.com</p>\<newline>                  </a>\<newline>                ''\<rparr>]\<rparr>)"
    using main[THEN conjunct1]
    by (simp add: render_article_def example_env_def strip_www_def appendChild_def
        example_page_def newsItem_innerHTML_def escapeHtml_def)
  have markup: "''<p>'' @ replace_g (CHR 0x0A) ''<br>'' (escapeHtml ?text) @ ''</p>'' =
     ''<p>[{&quot;title&quot;:&quot;A&quot;,&quot;url&quot;:&quot;https://www.example.com/a&quot;},{&quot;title&quot;:&quot;B&quot;,&quot;url&quot;:&quot;not a url&quot;},{&quot;title&quot;:&quot;C&quot;,&quot;url&quot;:&quot;https://news.example.org/c&quot;}]</p>''"
    by (simp add: escapeHtml_def)
  from loop main[THEN conjunct2, THEN conjunct2] show ?thesis
    by (simp only: markup)
qed

end
